theory Spec2Isabelle
  imports Main
begin

section \<open>JavaScript strings and arrays\<close>

text \<open>
  The program is one TypeScript function, \<open>createStagingPR\<close> (src/index.ts, lines
  65-403; the line numbers below are those of that file). Strings are lists of
  characters.
  The string methods the function calls are written out below as the language defines
  them for the arguments the function passes: a one-character separator for
  \<open>split\<close>, a string pattern (first occurrence only) for \<open>replace\<close>.
\<close>

text \<open>\<open>s.startsWith(p)\<close>.\<close>

definition starts_with :: "string \<Rightarrow> string \<Rightarrow> bool" where
  "starts_with s p = (take (length p) s = p)"

text \<open>
  \<open>s.split(c)\<close> for a one-character separator: the pieces between the separators,
  empty pieces kept; the empty string gives one empty piece.
\<close>

fun js_split :: "char \<Rightarrow> string \<Rightarrow> string list" where
  "js_split c [] = [[]]"
| "js_split c (x # xs) =
     (if x = c then [] # js_split c xs
      else (case js_split c xs of
              [] \<Rightarrow> [[x]]
            | p # ps \<Rightarrow> (x # p) # ps))"

text \<open>
  \<open>s.trim()\<close>: white space and line terminators are stripped from both ends. Of the
  code points JavaScript counts as such, the model's 8-bit characters hold tab, line
  feed, vertical tab, form feed, carriage return and space.
\<close>

definition is_space :: "char \<Rightarrow> bool" where
  "is_space c = (c \<in> set [CHR 0x09, CHR 0x0A, CHR 0x0B, CHR 0x0C, CHR 0x0D, CHR 0x20])"

definition js_trim :: "string \<Rightarrow> string" where
  "js_trim s = rev (dropWhile is_space (rev (dropWhile is_space s)))"

text \<open>
  \<open>s.replace(pat, rep)\<close> with a string pattern replaces the first occurrence of
  \<open>pat\<close> only (the replacement strings of the program hold no \<open>$\<close>).
\<close>

fun js_replace :: "string \<Rightarrow> string \<Rightarrow> string \<Rightarrow> string" where
  "js_replace pat rep [] = (if pat = [] then rep else [])"
| "js_replace pat rep (x # xs) =
     (if starts_with (x # xs) pat then rep @ drop (length pat) (x # xs)
      else x # js_replace pat rep xs)"

text \<open>\<open>xs.join(sep)\<close>.\<close>

fun js_join :: "string \<Rightarrow> string list \<Rightarrow> string" where
  "js_join sep [] = []"
| "js_join sep [x] = x"
| "js_join sep (x # y # ys) = x @ sep @ js_join sep (y # ys)"

text \<open>\<open>s.substring(0, n)\<close> is \<open>take n s\<close>. \<open>xs[i]\<close> is \<open>undefined\<close> out of range.\<close>

fun js_nth :: "'a list \<Rightarrow> nat \<Rightarrow> 'a option" where
  "js_nth [] i = None"
| "js_nth (x # xs) 0 = Some x"
| "js_nth (x # xs) (Suc i) = js_nth xs i"

text \<open>\<open>x || ''\<close>: \<open>undefined\<close> and the empty string both give the empty string.\<close>

fun or_empty :: "string option \<Rightarrow> string" where
  "or_empty None = []"
| "or_empty (Some s) = s"

text \<open>A string option is truthy when it is defined and not empty.\<close>

fun truthy :: "string option \<Rightarrow> bool" where
  "truthy None = False"
| "truthy (Some s) = (s \<noteq> [])"

text \<open>A non-negative integer in a template literal: its decimal digits.\<close>

definition digit_char :: "nat \<Rightarrow> char" where
  "digit_char n = ''0123456789'' ! n"

fun string_of_nat :: "nat \<Rightarrow> string" where
  "string_of_nat n =
     (if n < 10 then [digit_char n] else string_of_nat (n div 10) @ [digit_char (n mod 10)])"

section \<open>Commit records and the per-branch log\<close>

text \<open>
  The objects pushed to \<open>allCommits\<close>. On the path through \<open>git.raw\<close> they have the
  fields \<open>hash\<close>, \<open>message\<close>, \<open>author_name\<close>, \<open>date\<close>, \<open>refs\<close> and \<open>branch\<close>; on the
  path through \<open>git.log\<close> they are the library's entries with \<open>branch\<close> added. The
  sort also reads \<open>author_date\<close>, which the raw path never sets.
\<close>

record commit =
  hash :: string
  message :: string
  author_name :: string
  date :: string
  refs :: string
  author_date :: "string option"
  branch :: string

text \<open>
  Lines 217-227: one line of the log, split at every \<open>|\<close> and destructured into
  \<open>[hash, message, author, date, refs]\<close>; pieces past the fifth are dropped, missing
  ones are \<open>undefined\<close>. \<open>js_split\<close> never returns the empty list
  (\<open>js_split_not_Nil\<close>), so \<open>hash\<close> is always a string.
\<close>

definition parse_line :: "string \<Rightarrow> string \<Rightarrow> commit" where
  "parse_line br line =
     (let parts = js_split (CHR ''|'') line in
      \<lparr> hash = or_empty (js_nth parts 0),
        message = or_empty (js_nth parts 1),
        author_name = or_empty (js_nth parts 2),
        date = or_empty (js_nth parts 3),
        refs = or_empty (js_nth parts 4),
        author_date = None,
        branch = br \<rparr>)"

text \<open>
  Lines 213-227: \<open>rawOutput.trim().split('\n').filter(line => line.trim()).map(...)\<close>.
\<close>

definition parse_log :: "string \<Rightarrow> string \<Rightarrow> commit list" where
  "parse_log br rawOutput =
     map (parse_line br)
       (filter (\<lambda>line. js_trim line \<noteq> []) (js_split (CHR 0x0A) (js_trim rawOutput)))"

text \<open>
  Lines 241-247: the commits of one branch are appended to \<open>allCommits\<close> unless their
  hash is already in the set \<open>commitHashes\<close>.
\<close>

fun add_unique :: "commit list \<Rightarrow> commit list \<times> string set \<Rightarrow> commit list \<times> string set" where
  "add_unique [] (allCommits, commitHashes) = (allCommits, commitHashes)"
| "add_unique (c # cs) (allCommits, commitHashes) =
     (if hash c \<in> commitHashes then add_unique cs (allCommits, commitHashes)
      else add_unique cs (allCommits @ [c], insert (hash c) commitHashes))"

section \<open>Sorting by date\<close>

text \<open>
  Lines 254-258. \<open>new Date(a.date || a.author_date || 0).getTime()\<close>: the first truthy
  one of \<open>date\<close> and \<open>author_date\<close> is parsed, and when neither is, the number 0 gives
  the time 0. Parsing a string is the engine's: it is the parameter \<open>getTime\<close>, which
  returns \<open>None\<close> for an invalid date (whose time is NaN).
\<close>

definition timestamp :: "(string \<Rightarrow> int option) \<Rightarrow> commit \<Rightarrow> int option" where
  "timestamp getTime c =
     (if date c \<noteq> [] then getTime (date c)
      else if truthy (author_date c) then getTime (or_empty (author_date c))
      else Some 0)"

text \<open>The comparator: \<open>dateA.getTime() - dateB.getTime()\<close>, NaN when either is.\<close>

definition compare_dates :: "(string \<Rightarrow> int option) \<Rightarrow> commit \<Rightarrow> commit \<Rightarrow> int option" where
  "compare_dates getTime a b =
     (case (timestamp getTime a, timestamp getTime b) of
        (Some x, Some y) \<Rightarrow> Some (x - y)
      | _ \<Rightarrow> None)"

text \<open>
  \<open>Array.prototype.sort\<close> with a comparator. The language reads a NaN result as +0
  and requires the sort to be stable. For a consistent comparator that fixes the
  result, and any stable sort computes it; the model is the stable insertion sort.
  For an inconsistent comparator (one that returns NaN for some pairs and not for
  others) the language leaves the order to the engine, and the model is one such
  engine.
\<close>

definition sort_compare :: "('a \<Rightarrow> 'a \<Rightarrow> int option) \<Rightarrow> 'a \<Rightarrow> 'a \<Rightarrow> int" where
  "sort_compare comparefn a b = (case comparefn a b of None \<Rightarrow> 0 | Some v \<Rightarrow> v)"

fun js_insert :: "('a \<Rightarrow> 'a \<Rightarrow> int option) \<Rightarrow> 'a \<Rightarrow> 'a list \<Rightarrow> 'a list" where
  "js_insert comparefn x [] = [x]"
| "js_insert comparefn x (y # ys) =
     (if sort_compare comparefn x y > 0 then y # js_insert comparefn x ys else x # y # ys)"

definition js_sort :: "('a \<Rightarrow> 'a \<Rightarrow> int option) \<Rightarrow> 'a list \<Rightarrow> 'a list" where
  "js_sort comparefn xs = foldr (js_insert comparefn) xs []"

section \<open>The program and its collaborators\<close>

text \<open>The options object the command line hands to \<open>createStagingPR\<close> (lines 53-63).\<close>

record options =
  featureBranch :: "string option"
  stagingBranch :: string
  developBranch :: string
  dryRun :: bool
  includeMerges :: bool
  firstParent :: bool
  includeSubBranches :: bool
  subBranchPattern :: "string option"
  branches :: "string option"

text \<open>
  What the function does to the outside, in order: console and spinner output, the
  calls of the git library and the request to the hosting API. The colours that
  \<open>chalk\<close> adds to a message are left out.
\<close>

datatype event =
    ConsoleLog string
  | ConsoleWarn string
  | ConsoleError string
  | SpinnerStart string
  | SpinnerSucceed string
  | SpinnerFail string
  | GitBranch "string list"
  | GitStatus
  | GitFetch
  | GitRaw "string list"
  | GitLog string string
  | GitCheckout "string list"
  | GitPush string string
  | GitGetConfig string
  | PullsCreate string string string string string string

text \<open>
  How a run ends: \<open>process.exit(n)\<close>, or the function returns. A step of the run gives
  its events and either the end of the run or a value to go on with.
\<close>

datatype outcome = Exit nat | Return

type_synonym 'a step = "event list \<times> (outcome + 'a)"

definition seq :: "'a step \<Rightarrow> ('a \<Rightarrow> 'b step) \<Rightarrow> 'b step" where
  "seq m f =
     (case m of
        (es, Inl out) \<Rightarrow> (es, Inl out)
      | (es, Inr x) \<Rightarrow> (case f x of (es', r) \<Rightarrow> (es @ es', r)))"

text \<open>
  The collaborators: what each call of the git library answers (\<open>Inl\<close> is a rejected
  promise, the error as \<open>${error}\<close> prints it), the regular-expression engine, the
  date parser, the clock, the process environment and the hosting API.
\<close>

type_synonym js_error = string

record branch_summary =
  summary_all :: "string list"
  summary_current :: string

record world =
  git_branch :: "string list \<Rightarrow> js_error + branch_summary"
  git_status_isClean :: "js_error + bool"
  git_fetch :: "js_error option"
  git_raw :: "string list \<Rightarrow> js_error + string"
  git_log :: "string \<Rightarrow> string \<Rightarrow> js_error + commit list"
  git_checkout :: "string list \<Rightarrow> js_error option"
  git_push :: "string \<Rightarrow> string \<Rightarrow> js_error option"
  git_getConfig :: "string \<Rightarrow> js_error + string option"
  regexp_test :: "string \<Rightarrow> string \<Rightarrow> js_error + bool"
  date_getTime :: "string \<Rightarrow> int option"
  date_now :: nat
  env_GITHUB_TOKEN :: "string option"
  pulls_create :: "string \<Rightarrow> string \<Rightarrow> string \<Rightarrow> string \<Rightarrow> string \<Rightarrow> string \<Rightarrow> js_error + nat \<times> string"

text \<open>
  Lines 399-402, the outer \<open>catch\<close>: an error thrown anywhere outside the two inner
  \<open>try\<close> blocks is reported and the process exits with 1.
\<close>

definition uncaught :: "js_error \<Rightarrow> 'a step" where
  "uncaught e = ([SpinnerFail (''Error: '' @ e)], Inl (Exit 1))"

definition await :: "event \<Rightarrow> js_error + 'a \<Rightarrow> 'a step" where
  "await call answer =
     (case answer of
        Inl e \<Rightarrow> seq ([call], Inr ()) (\<lambda>_. uncaught e)
      | Inr v \<Rightarrow> ([call], Inr v))"

definition await_unit :: "event \<Rightarrow> js_error option \<Rightarrow> unit step" where
  "await_unit call answer =
     (case answer of
        Some e \<Rightarrow> seq ([call], Inr ()) (\<lambda>_. uncaught e)
      | None \<Rightarrow> ([call], Inr ()))"

definition emit :: "event list \<Rightarrow> unit step" where
  "emit es = (es, Inr ())"

definition exit_with :: "event list \<Rightarrow> nat \<Rightarrow> 'a step" where
  "exit_with es n = (es, Inl (Exit n))"

subsection \<open>Resolving the branches\<close>

text \<open>Lines 72 and 146: \<open>options.branches.split(',').map(b => b.trim())\<close>.\<close>

definition manual_branches :: "options \<Rightarrow> string list" where
  "manual_branches opts = map js_trim (js_split (CHR '','') (or_empty (branches opts)))"

text \<open>
  Lines 70-83: the feature branch the rest of the run uses as
  \<open>options.featureBranch\<close>. \<open>manualBranches[0]\<close> exists, since \<open>split\<close> returns at least
  one piece.
\<close>

definition resolve_feature :: "options \<Rightarrow> world \<Rightarrow> string step" where
  "resolve_feature opts w =
     (if truthy (branches opts) then
        seq (emit [ConsoleLog (''Using manually specified branches: ''
                     @ js_join '', '' (manual_branches opts))])
          (\<lambda>_. ([], Inr (if \<not> truthy (featureBranch opts)
                         then or_empty (js_nth (manual_branches opts) 0)
                         else or_empty (featureBranch opts))))
      else if \<not> truthy (featureBranch opts) then
        seq (await (GitBranch []) (git_branch w []))
          (\<lambda>currentBranch.
             seq (emit [ConsoleLog (''Using current branch: '' @ summary_current currentBranch)])
               (\<lambda>_. ([], Inr (summary_current currentBranch))))
      else ([], Inr (or_empty (featureBranch opts))))"

text \<open>Lines 85-95.\<close>

definition guard_feature :: "options \<Rightarrow> string \<Rightarrow> unit step" where
  "guard_feature opts fb =
     (if fb = stagingBranch opts \<or> fb = developBranch opts then
        exit_with [ConsoleError ''Feature branch cannot be the same as staging or develop branch''] 1
      else emit [])"

text \<open>Lines 97-107.\<close>

definition check_status :: "world \<Rightarrow> unit step" where
  "check_status w =
     seq (emit [SpinnerStart ''Checking repository status...''])
       (\<lambda>_. seq (await GitStatus (git_status_isClean w))
          (\<lambda>clean.
             if \<not> clean then
               exit_with [SpinnerFail
                 ''Working directory is not clean. Please commit or stash your changes.''] 1
             else emit [SpinnerSucceed ''Repository status is clean'']))"

text \<open>Lines 109-111.\<close>

definition fetch_latest :: "world \<Rightarrow> unit step" where
  "fetch_latest w =
     seq (emit [SpinnerStart ''Fetching latest changes...''])
       (\<lambda>_. seq (await_unit GitFetch (git_fetch w))
          (\<lambda>_. emit [SpinnerSucceed ''Fetched latest changes'']))"

text \<open>Lines 113-139.\<close>

definition has_branch :: "branch_summary \<Rightarrow> string \<Rightarrow> bool" where
  "has_branch bs b = (b \<in> set (summary_all bs) \<or> (''remotes/origin/'' @ b) \<in> set (summary_all bs))"

definition not_found :: "string \<Rightarrow> string \<Rightarrow> string" where
  "not_found kind b = kind @ '' branch '' @ [CHR 0x27] @ b @ [CHR 0x27] @ '' not found''"

definition check_branches :: "options \<Rightarrow> world \<Rightarrow> string \<Rightarrow> unit step" where
  "check_branches opts w fb =
     seq (emit [SpinnerStart ''Checking if branches exist...''])
       (\<lambda>_. seq (await (GitBranch [''-a'']) (git_branch w [''-a'']))
          (\<lambda>bs.
             if \<not> has_branch bs fb then
               exit_with [SpinnerFail (not_found ''Feature'' fb)] 1
             else if \<not> has_branch bs (stagingBranch opts) then
               exit_with [SpinnerFail (not_found ''Staging'' (stagingBranch opts))] 1
             else if \<not> has_branch bs (developBranch opts) then
               exit_with [SpinnerFail (not_found ''Develop'' (developBranch opts))] 1
             else emit [SpinnerSucceed ''All required branches exist'']))"

text \<open>
  Lines 161-167, the filter's test. The regular expression is built, and can be
  refused as malformed, only when the two tests before it have not decided.
\<close>

definition is_match :: "world \<Rightarrow> string \<Rightarrow> string \<Rightarrow> string \<Rightarrow> js_error + bool" where
  "is_match w fb pattern b =
     (if b = fb then Inr False
      else if starts_with b (js_replace ''*'' [] pattern) then Inr True
      else regexp_test w (js_replace ''*'' ''.*'' pattern) b)"

fun filter_match :: "world \<Rightarrow> string \<Rightarrow> string \<Rightarrow> string list \<Rightarrow> js_error + string list" where
  "filter_match w fb pattern [] = Inr []"
| "filter_match w fb pattern (b # bs) =
     (case is_match w fb pattern b of
        Inl e \<Rightarrow> Inl e
      | Inr keep \<Rightarrow>
          (case filter_match w fb pattern bs of
             Inl e \<Rightarrow> Inl e
           | Inr rest \<Rightarrow> Inr (if keep then b # rest else rest)))"

text \<open>Lines 150-174.\<close>

definition find_sub_branches :: "options \<Rightarrow> world \<Rightarrow> string \<Rightarrow> string list step" where
  "find_sub_branches opts w fb =
     (if includeSubBranches opts then
        seq (emit [SpinnerStart ''Finding sub-branches...''])
          (\<lambda>_. seq (await (GitBranch [''-r'']) (git_branch w [''-r'']))
             (\<lambda>allBranches.
                let pattern = (if truthy (subBranchPattern opts)
                               then or_empty (subBranchPattern opts) else fb @ ''*'');
                    candidates = map (js_replace ''origin/'' [])
                                   (filter (\<lambda>b. starts_with b ''origin/'') (summary_all allBranches))
                in case filter_match w fb pattern candidates of
                     Inl e \<Rightarrow> uncaught e
                   | Inr subBranches \<Rightarrow>
                       (if length subBranches > 0 then
                          [SpinnerSucceed (''Found '' @ string_of_nat (length subBranches)
                             @ '' sub-branches: '' @ js_join '', '' subBranches)]
                        else [SpinnerSucceed ''No sub-branches found''],
                        Inr subBranches)))
      else ([], Inr []))"

text \<open>Lines 141-177.\<close>

definition branches_to_process :: "options \<Rightarrow> world \<Rightarrow> string \<Rightarrow> string list step" where
  "branches_to_process opts w fb =
     (if truthy (branches opts) then
        (let branchesToProcess = manual_branches opts in
         ([ConsoleLog (''Processing '' @ string_of_nat (length branchesToProcess)
             @ '' manually specified branches'')], Inr branchesToProcess))
      else
        seq (find_sub_branches opts w fb) (\<lambda>subBranches. ([], Inr (fb # subBranches))))"

subsection \<open>Collecting the commits\<close>

text \<open>Lines 183-192.\<close>

definition additional_args :: "options \<Rightarrow> string list" where
  "additional_args opts =
     (if \<not> includeMerges opts then [''--no-merges''] else [])
     @ (if firstParent opts then [''--first-parent''] else [])"

text \<open>Lines 203-210.\<close>

definition log_args :: "options \<Rightarrow> string \<Rightarrow> string list" where
  "log_args opts b =
     [''log'', ''origin/'' @ stagingBranch opts @ ''..origin/'' @ b, ''--oneline'',
      ''--format=%H|%s|%an|%ad|%d'', ''--date=iso''] @ additional_args opts"

text \<open>
  Lines 200-239, the body of the \<open>try\<close> up to \<open>branchCommits\<close>: the call made for one
  branch, and its commits or the error the call threw.
\<close>

definition branch_commits :: "options \<Rightarrow> world \<Rightarrow> string \<Rightarrow> event \<times> (js_error + commit list)" where
  "branch_commits opts w b =
     (if length (additional_args opts) > 0 then
        (GitRaw (log_args opts b),
         case git_raw w (log_args opts b) of
           Inl e \<Rightarrow> Inl e
         | Inr rawOutput \<Rightarrow> Inr (parse_log b rawOutput))
      else
        (GitLog (''origin/'' @ stagingBranch opts) (''origin/'' @ b),
         case git_log w (''origin/'' @ stagingBranch opts) (''origin/'' @ b) of
           Inl e \<Rightarrow> Inl e
         | Inr logResult \<Rightarrow> Inr (map (\<lambda>c. c\<lparr>branch := b\<rparr>) logResult)))"

text \<open>
  Lines 198-251: the loop over \<open>branchesToProcess\<close>, carrying \<open>allCommits\<close> and
  \<open>commitHashes\<close>. An error of the call is caught inside the loop: a warning, and the
  loop goes on.
\<close>

fun collect ::
  "options \<Rightarrow> world \<Rightarrow> string list \<Rightarrow> commit list \<times> string set
     \<Rightarrow> event list \<times> (commit list \<times> string set)" where
  "collect opts w [] st = ([], st)"
| "collect opts w (b # bs) st =
     (case branch_commits opts w b of
        (call, Inl e) \<Rightarrow>
          (case collect opts w bs st of
             (es, st') \<Rightarrow>
               (call # ConsoleWarn (''Warning: Could not get commits from branch '' @ b
                         @ '': '' @ e) # es, st'))
      | (call, Inr branchCommits) \<Rightarrow>
          (case collect opts w bs (add_unique branchCommits st) of
             (es, st') \<Rightarrow> (call # es, st')))"

text \<open>Lines 194-258: \<open>allCommits\<close> after the loop and the sort.\<close>

definition changeset :: "options \<Rightarrow> world \<Rightarrow> string list \<Rightarrow> commit list" where
  "changeset opts w bs =
     js_sort (compare_dates (date_getTime w)) (fst (snd (collect opts w bs ([], {}))))"

text \<open>Lines 179-181 and 194-258.\<close>

definition collect_all :: "options \<Rightarrow> world \<Rightarrow> string \<Rightarrow> string list \<Rightarrow> commit list step" where
  "collect_all opts w fb bs =
     seq (emit [SpinnerStart (''Getting commits from ''
                  @ (if length bs > 1 then string_of_nat (length bs) @ '' branches'' else fb)
                  @ '' that are not in '' @ stagingBranch opts @ ''...'')])
       (\<lambda>_. (fst (collect opts w bs ([], {})), Inr (changeset opts w bs)))"

text \<open>Lines 265-272.\<close>

definition check_found :: "options \<Rightarrow> string \<Rightarrow> commit list \<Rightarrow> unit step" where
  "check_found opts fb allCommits =
     (if length allCommits = 0 then
        exit_with [SpinnerFail (''No commits found in '' @ fb @ '' that are not in ''
                     @ stagingBranch opts)] 1
      else emit [SpinnerSucceed (''Found '' @ string_of_nat (length allCommits)
                   @ '' commits to cherry-pick'')])"

subsection \<open>Showing the commits\<close>

text \<open>
  \<open>featureCommits.all\<close> is the array \<open>allCommits\<close> itself, and \<open>reverse\<close> reverses an
  array in place. Arrays are therefore kept in a store, addressed by reference:
  \<open>[...a]\<close> allocates a copy, \<open>a.reverse()\<close> overwrites \<open>a\<close> and returns it.
\<close>

type_synonym heap = "commit list list"

definition array_new :: "heap \<Rightarrow> commit list \<Rightarrow> heap \<times> nat" where
  "array_new h xs = (h @ [xs], length h)"

definition array_spread :: "heap \<Rightarrow> nat \<Rightarrow> heap \<times> nat" where
  "array_spread h a = array_new h (h ! a)"

definition array_reverse :: "heap \<Rightarrow> nat \<Rightarrow> heap \<times> nat" where
  "array_reverse h a = (h[a := rev (h ! a)], a)"

text \<open>Lines 277-283 and 377-380: the text of one commit, numbered from 1.\<close>

definition commit_line :: "string \<Rightarrow> nat \<times> commit \<Rightarrow> string" where
  "commit_line fb ic =
     (case ic of (i, c) \<Rightarrow>
        string_of_nat i @ ''. '' @ take 7 (hash c) @ '' - '' @ message c
        @ (if branch c \<noteq> [] \<and> branch c \<noteq> fb then '' ['' @ branch c @ '']'' else []))"

text \<open>
  Lines 274-285: the list is shown from a reversed copy. The step returns the store
  it leaves and the array it has iterated over.
\<close>

definition display :: "string \<Rightarrow> heap \<Rightarrow> nat \<Rightarrow> (heap \<times> nat) step" where
  "display fb h featureCommits_all =
     (case array_spread h featureCommits_all of
        (h1, copy) \<Rightarrow>
          (case array_reverse h1 copy of
             (h2, reversed) \<Rightarrow>
               (ConsoleLog ''Commits to be cherry-picked (newest first):''
                  # map (\<lambda>ic. ConsoleLog (''  '' @ commit_line fb ic))
                      (enumerate 1 (h2 ! reversed)),
                Inr (h2, reversed))))"

subsection \<open>Publishing\<close>

text \<open>Line 292.\<close>

definition staging_pr_branch :: "string \<Rightarrow> nat \<Rightarrow> string" where
  "staging_pr_branch fb now =
     ''staging-pr-'' @ js_replace ''/'' ''-'' fb @ ''-'' @ string_of_nat now"

text \<open>Lines 309-324: the commits are applied in the order of the array.\<close>

fun cherry_pick_all :: "world \<Rightarrow> commit list \<Rightarrow> unit step" where
  "cherry_pick_all w [] = ([], Inr ())"
| "cherry_pick_all w (c # cs) =
     (case git_raw w [''cherry-pick'', hash c] of
        Inl e \<Rightarrow>
          ([GitRaw [''cherry-pick'', hash c],
            SpinnerFail (''Failed to cherry-pick commit '' @ hash c @ '': '' @ e),
            ConsoleLog ''You may need to resolve conflicts manually and continue with:'',
            ConsoleLog ''  git cherry-pick --continue'',
            ConsoleLog ''Or abort with:'',
            ConsoleLog ''  git cherry-pick --abort''],
           Inl (Exit 1))
      | Inr _ \<Rightarrow>
          (case cherry_pick_all w cs of
             (es, r) \<Rightarrow> (GitRaw [''cherry-pick'', hash c] # es, r)))"

text \<open>
  Line 346: \<open>/github\.com[:/]([^/]+)\/([^.]+)/\<close>, the leftmost match. The first group
  is the run of characters other than \<open>/\<close> before the next \<open>/\<close>, the second the run of
  characters other than \<open>.\<close> after it; both must be non-empty.
\<close>

definition match_here :: "string \<Rightarrow> (string \<times> string) option" where
  "match_here s =
     (if starts_with s ''github.com'' then
        (case drop 10 s of
           [] \<Rightarrow> None
         | c # rest \<Rightarrow>
             if c = CHR '':'' \<or> c = CHR ''/'' then
               (let owner = takeWhile (\<lambda>x. x \<noteq> CHR ''/'') rest;
                    after = dropWhile (\<lambda>x. x \<noteq> CHR ''/'') rest
                in if owner = [] \<or> after = [] then None
                   else (let repo = takeWhile (\<lambda>x. x \<noteq> CHR ''.'') (tl after)
                         in if repo = [] then None else Some (owner, repo)))
             else None)
      else None)"

fun match_github :: "string \<Rightarrow> (string \<times> string) option" where
  "match_github [] = None"
| "match_github (x # xs) =
     (case match_here (x # xs) of Some r \<Rightarrow> Some r | None \<Rightarrow> match_github xs)"

text \<open>Lines 332-398.\<close>

definition create_pr ::
  "options \<Rightarrow> world \<Rightarrow> string \<Rightarrow> string list \<Rightarrow> commit list \<Rightarrow> string \<Rightarrow> unit step" where
  "create_pr opts w fb bs featureCommits_all stagingPRBranch =
     (if \<not> truthy (env_GITHUB_TOKEN w) then
        ([ConsoleLog ([CHR 0x0A] @ ''GITHUB_TOKEN not found. Please create PR manually:''),
          ConsoleLog (''  gh pr create --base '' @ stagingBranch opts @ '' --head ''
            @ stagingPRBranch @ '' --title '' @ [CHR 0x22] @ ''Cherry-pick changes from '' @ fb
            @ '' to staging'' @ [CHR 0x22] @ '' --body '' @ [CHR 0x22]
            @ ''Cherry-picked commits from '' @ fb @ [CHR 0x22])],
         Inl Return)
      else
        seq (await (GitGetConfig ''remote.origin.url'') (git_getConfig w ''remote.origin.url''))
          (\<lambda>remoteUrl.
             case (case remoteUrl of None \<Rightarrow> None | Some url \<Rightarrow> match_github url) of
               None \<Rightarrow>
                 ([ConsoleLog ''Could not parse GitHub repository from remote URL'',
                   ConsoleLog (''Please create PR manually from branch '' @ [CHR 0x27]
                     @ stagingPRBranch @ [CHR 0x27] @ '' to '' @ [CHR 0x27]
                     @ stagingBranch opts @ [CHR 0x27])],
                  Inl Return)
             | Some (owner, repo) \<Rightarrow>
                 (let repoName = js_replace ''.git'' [] repo;
                      branchList = (if length bs > 1 then js_join '', '' bs else fb);
                      prBody = ''Cherry-picked changes from '' @ branchList @ '' to staging''
                        @ [CHR 0x0A, CHR 0x0A] @ ''## Commits included:'' @ [CHR 0x0A]
                        @ js_join [CHR 0x0A] (map (commit_line fb) (enumerate 1 featureCommits_all))
                        @ [CHR 0x0A, CHR 0x0A] @ ''---'' @ [CHR 0x0A] @ ''*Generated by pr-utils*'';
                      title = ''Cherry-pick changes from '' @ branchList @ '' to staging''
                  in seq (emit [SpinnerStart ''Creating GitHub PR...''])
                       (\<lambda>_. seq (await (PullsCreate owner repoName title stagingPRBranch
                                          (stagingBranch opts) prBody)
                                    (pulls_create w owner repoName title stagingPRBranch
                                          (stagingBranch opts) prBody))
                          (\<lambda>pr.
                             ([SpinnerSucceed (''Created PR #'' @ string_of_nat (fst pr) @ '': ''
                                 @ snd pr),
                               ConsoleLog ([CHR 0x0A, CHR 0xE2, CHR 0x9C, CHR 0x85]
                                 @ '' Successfully created staging PR!''),
                               ConsoleLog (''   PR URL: '' @ snd pr)],
                              Inl Return))))))"

text \<open>Lines 292-330, then \<open>create_pr\<close>. The loop reads \<open>featureCommits.all\<close> from the store.\<close>

definition publish ::
  "options \<Rightarrow> world \<Rightarrow> string \<Rightarrow> string list \<Rightarrow> heap \<Rightarrow> nat \<Rightarrow> unit step" where
  "publish opts w fb bs h featureCommits_all =
     (let stagingPRBranch = staging_pr_branch fb (date_now w) in
      seq (emit [SpinnerStart (''Creating new branch '' @ [CHR 0x27] @ stagingPRBranch
                   @ [CHR 0x27] @ '' from '' @ stagingBranch opts @ ''...'')])
      (\<lambda>_. seq (await_unit
                  (GitCheckout [''-b'', stagingPRBranch, ''origin/'' @ stagingBranch opts])
                  (git_checkout w [''-b'', stagingPRBranch, ''origin/'' @ stagingBranch opts]))
      (\<lambda>_. seq (emit [SpinnerSucceed (''Created branch '' @ [CHR 0x27] @ stagingPRBranch
                         @ [CHR 0x27]),
                       SpinnerStart ''Cherry-picking commits...'',
                       ConsoleLog (''Cherry-picking ''
                         @ string_of_nat (length (h ! featureCommits_all))
                         @ '' commits in chronological order...'')])
      (\<lambda>_. seq (cherry_pick_all w (h ! featureCommits_all))
      (\<lambda>_. seq (emit [SpinnerSucceed ''All commits cherry-picked successfully'',
                       SpinnerStart (''Pushing branch '' @ [CHR 0x27] @ stagingPRBranch
                         @ [CHR 0x27] @ '' to origin...'')])
      (\<lambda>_. seq (await_unit (GitPush ''origin'' stagingPRBranch)
                  (git_push w ''origin'' stagingPRBranch))
      (\<lambda>_. seq (emit [SpinnerSucceed (''Pushed branch '' @ [CHR 0x27] @ stagingPRBranch
                         @ [CHR 0x27] @ '' to origin'')])
      (\<lambda>_. create_pr opts w fb bs (h ! featureCommits_all) stagingPRBranch))))))))"

subsection \<open>The whole run\<close>

text \<open>
  Lines 260-290 and on: the sorted array is \<open>featureCommits.all\<close>; it is shown, and
  unless the run is a dry run it is published.
\<close>

definition show_and_publish ::
  "options \<Rightarrow> world \<Rightarrow> string \<Rightarrow> string list \<Rightarrow> commit list \<Rightarrow> unit step" where
  "show_and_publish opts w fb bs allCommits =
     (case array_new [] allCommits of
        (h, featureCommits_all) \<Rightarrow>
          seq (check_found opts fb (h ! featureCommits_all))
          (\<lambda>_. seq (display fb h featureCommits_all)
          (\<lambda>shown.
             if dryRun opts then
               ([ConsoleLog ([CHR 0x0A] @ ''Dry run completed. No changes were made.'')],
                Inl Return)
             else publish opts w fb bs (fst shown) featureCommits_all)))"

text \<open>Lines 70-177: everything before the commits are collected.\<close>

definition prepare :: "options \<Rightarrow> world \<Rightarrow> (string \<times> string list) step" where
  "prepare opts w =
     seq (resolve_feature opts w)
     (\<lambda>fb. seq (guard_feature opts fb)
     (\<lambda>_. seq (check_status w)
     (\<lambda>_. seq (fetch_latest w)
     (\<lambda>_. seq (check_branches opts w fb)
     (\<lambda>_. seq (branches_to_process opts w fb)
     (\<lambda>bs. ([], Inr (fb, bs))))))))"

definition finish :: "unit step \<Rightarrow> event list \<times> outcome" where
  "finish m = (case m of (es, Inl out) \<Rightarrow> (es, out) | (es, Inr _) \<Rightarrow> (es, Return))"

definition createStagingPR :: "options \<Rightarrow> world \<Rightarrow> event list \<times> outcome" where
  "createStagingPR opts w =
     finish
       (seq (prepare opts w)
          (\<lambda>r. case r of (fb, bs) \<Rightarrow>
             seq (collect_all opts w fb bs)
               (\<lambda>allCommits. show_and_publish opts w fb bs allCommits)))"

section \<open>Notions used to state the properties\<close>

text \<open>
  The commits the successful branch queries return, in processing order, before
  duplicates are dropped.
\<close>

definition fetched :: "options \<Rightarrow> world \<Rightarrow> string list \<Rightarrow> commit list" where
  "fetched opts w bs =
     concat (map (\<lambda>b. case snd (branch_commits opts w b) of Inl e \<Rightarrow> [] | Inr cs \<Rightarrow> cs) bs)"

text \<open>
  The first branch, in processing order, whose query succeeds and returns a commit
  with the hash \<open>h\<close>.
\<close>

fun first_seen :: "options \<Rightarrow> world \<Rightarrow> string list \<Rightarrow> string \<Rightarrow> string option" where
  "first_seen opts w [] h = None"
| "first_seen opts w (b # bs) h =
     (case snd (branch_commits opts w b) of
        Inl e \<Rightarrow> first_seen opts w bs h
      | Inr cs \<Rightarrow> if h \<in> set (map hash cs) then Some b else first_seen opts w bs h)"

text \<open>The loop invariant of lines 195-251: the set holds the hashes of the array.\<close>

definition hashes_inv :: "commit list \<times> string set \<Rightarrow> bool" where
  "hashes_inv st = (snd st = set (map hash (fst st)) \<and> distinct (map hash (fst st)))"

text \<open>
  The calls that change the repository or the hosting service: creating the branch,
  a cherry-pick, the push and the pull request.
\<close>

fun is_publish :: "event \<Rightarrow> bool" where
  "is_publish (GitCheckout args) = True"
| "is_publish (GitPush remote b) = True"
| "is_publish (PullsCreate owner repo title head base body) = True"
| "is_publish (GitRaw args) = (js_nth args 0 = Some ''cherry-pick'')"
| "is_publish e = False"

definition unpublished :: "event list \<Rightarrow> bool" where
  "unpublished es = list_all (\<lambda>e. \<not> is_publish e) es"

text \<open>The hashes of the cherry-pick calls of a trace, in the order of the calls.\<close>

fun picked :: "event list \<Rightarrow> string list" where
  "picked [] = []"
| "picked (GitRaw args # es) =
     (if js_nth args 0 = Some ''cherry-pick'' then or_empty (js_nth args 1) # picked es
      else picked es)"
| "picked (e # es) = picked es"

text \<open>The log queries of a trace.\<close>

fun is_query :: "event \<Rightarrow> bool" where
  "is_query (GitRaw args) = True"
| "is_query (GitLog from to) = True"
| "is_query e = False"

text \<open>The output of lines 272-285 for a changeset, and of lines 179-251 for a branch list.\<close>

definition found_message :: "commit list \<Rightarrow> string" where
  "found_message cs = ''Found '' @ string_of_nat (length cs) @ '' commits to cherry-pick''"

definition shown :: "string \<Rightarrow> commit list \<Rightarrow> event list" where
  "shown fb cs =
     ConsoleLog ''Commits to be cherry-picked (newest first):''
       # map (\<lambda>ic. ConsoleLog (''  '' @ commit_line fb ic)) (enumerate 1 (rev cs))"

definition collecting :: "options \<Rightarrow> world \<Rightarrow> string \<Rightarrow> string list \<Rightarrow> event list" where
  "collecting opts w fb bs =
     SpinnerStart (''Getting commits from ''
        @ (if length bs > 1 then string_of_nat (length bs) @ '' branches'' else fb)
        @ '' that are not in '' @ stagingBranch opts @ ''...'')
     # fst (collect opts w bs ([], {}))"

section \<open>Example runs\<close>

text \<open>
  A repository with the branches \<open>featX\<close> and \<open>featY\<close>, whose answers to
  \<open>git.raw\<close> are the parameter \<open>raw\<close>; the options are those of
  \<open>create-staging-pr --branches "featX, featY"\<close>. Two dates parse, every other string
  is an invalid date.
\<close>

definition example_options :: options where
  "example_options =
     \<lparr> featureBranch = None, stagingBranch = ''staging'', developBranch = ''develop'',
       dryRun = False, includeMerges = False, firstParent = False,
       includeSubBranches = False, subBranchPattern = None,
       branches = Some ''featX, featY'' \<rparr>"

definition example_getTime :: "string \<Rightarrow> int option" where
  "example_getTime s =
     (if s = ''2024-01-01 10:00:00 +0000'' then Some 1704103200000
      else if s = ''2024-01-05 10:00:00 +0000'' then Some 1704448800000
      else None)"

definition example_world :: "(string list \<Rightarrow> js_error + string) \<Rightarrow> world" where
  "example_world raw =
     \<lparr> git_branch = (\<lambda>args. Inr \<lparr> summary_all =
           [''featX'', ''remotes/origin/featX'', ''remotes/origin/featY'',
            ''remotes/origin/staging'', ''remotes/origin/develop''],
           summary_current = ''featX'' \<rparr>),
       git_status_isClean = Inr True,
       git_fetch = None,
       git_raw = raw,
       git_log = (\<lambda>from to. Inr []),
       git_checkout = (\<lambda>args. None),
       git_push = (\<lambda>remote b. None),
       git_getConfig = (\<lambda>key. Inr (Some ''git@github.com:acme/tool.git'')),
       regexp_test = (\<lambda>pattern s. Inr False),
       date_getTime = example_getTime,
       date_now = 1700000000000,
       env_GITHUB_TOKEN = None,
       pulls_create = (\<lambda>owner repo title head base body. Inl ''HttpError: Not Found'') \<rparr>"

definition line_H1 :: string where
  "line_H1 =
     ''1111111111aaaaaaaaaa1111111111aaaaaaaaaa|add parser|Alice|2024-01-01 10:00:00 +0000|''"

definition line_H2 :: string where
  "line_H2 =
     ''2222222222bbbbbbbbbb2222222222bbbbbbbbbb|add printer|Bob|2024-01-05 10:00:00 +0000| (origin/featY)''"

text \<open>\<open>featX\<close> holds the first commit, \<open>featY\<close> both; the log lists the newest first.\<close>

definition raw_two :: "string list \<Rightarrow> js_error + string" where
  "raw_two args =
     (if args = log_args example_options ''featX'' then Inr (line_H1 @ [CHR 0x0A])
      else if args = log_args example_options ''featY'' then
        Inr (line_H2 @ [CHR 0x0A] @ line_H1 @ [CHR 0x0A])
      else if js_nth args 0 = Some ''cherry-pick'' then Inr []
      else Inl ''Error: fatal: bad revision'')"



text \<open>
  A later commit of \<open>featX\<close> whose subject is \<open>fix a|b parser\<close>, authored by Bob on
  5 January, on top of the commit of 1 January.
\<close>

definition line_fix :: string where
  "line_fix =
     ''2222222222bbbbbbbbbb2222222222bbbbbbbbbb|fix a|b parser|Bob|2024-01-05 10:00:00 +0000|''"

definition raw_pipe :: "string list \<Rightarrow> js_error + string" where
  "raw_pipe args =
     (if args = log_args example_options ''featX'' then
        Inr (line_fix @ [CHR 0x0A] @ line_H1 @ [CHR 0x0A])
      else if js_nth args 0 = Some ''cherry-pick'' then Inr []
      else Inl ''Error: fatal: bad revision'')"

text \<open>The options of \<open>create-staging-pr -f featX\<close>.\<close>

definition pipe_options :: options where
  "pipe_options = example_options\<lparr>featureBranch := Some ''featX'', branches := None\<rparr>"

text \<open>What the example prints and calls before it collects the commits.\<close>

definition example_prefix :: "event list" where
  "example_prefix =
     [ConsoleLog ''Using manually specified branches: featX, featY'',
      SpinnerStart ''Checking repository status...'', GitStatus,
      SpinnerSucceed ''Repository status is clean'',
      SpinnerStart ''Fetching latest changes...'', GitFetch,
      SpinnerSucceed ''Fetched latest changes'',
      SpinnerStart ''Checking if branches exist...'', GitBranch [''-a''],
      SpinnerSucceed ''All required branches exist'',
      ConsoleLog ''Processing 2 manually specified branches'']"

section \<open>Lemmas\<close>

declare string_of_nat.simps [simp del]

lemmas example_defs = example_options_def example_world_def example_getTime_def line_H1_def
  line_H2_def raw_two_def

lemmas eval_defs = branch_commits_def log_args_def additional_args_def parse_log_def
  js_trim_def is_space_def parse_line_def Let_def

lemmas run_defs = seq_def resolve_feature_def manual_branches_def emit_def guard_feature_def
  check_status_def await_def await_unit_def fetch_latest_def check_branches_def has_branch_def
  branches_to_process_def find_sub_branches_def exit_with_def uncaught_def

subsection \<open>Strings\<close>

lemma js_split_not_Nil: "js_split c s \<noteq> []"
  by (induction s) (auto split: list.splits)

lemma js_split_append:
  "c \<notin> set a \<Longrightarrow> js_split c (a @ c # rest) = a # js_split c rest"
  by (induction a) (auto simp: js_split_not_Nil split: list.splits)

lemma js_nth_numeral [simp]: "js_nth (x # xs) (numeral n) = js_nth xs (pred_numeral n)"
  by (simp add: numeral_eq_Suc)

subsection \<open>The loop that collects the commits\<close>

lemma add_unique_append:
  "add_unique (xs @ ys) st = add_unique ys (add_unique xs st)"
  by (induction xs st rule: add_unique.induct) auto

lemma collect_Cons_snd:
  "snd (collect opts w (b # bs) st) =
     snd (collect opts w bs
       (case snd (branch_commits opts w b) of Inl e \<Rightarrow> st | Inr cs \<Rightarrow> add_unique cs st))"
  by (cases "branch_commits opts w b") (auto split: sum.splits prod.splits)

lemma collect_Cons_fst:
  "fst (collect opts w (b # bs) st) =
     (case snd (branch_commits opts w b) of
        Inl e \<Rightarrow>
          fst (branch_commits opts w b)
            # ConsoleWarn (''Warning: Could not get commits from branch '' @ b @ '': '' @ e)
            # fst (collect opts w bs st)
      | Inr cs \<Rightarrow> fst (branch_commits opts w b) # fst (collect opts w bs (add_unique cs st)))"
  by (cases "branch_commits opts w b") (auto split: sum.splits prod.splits)

lemma collect_fetched:
  "snd (collect opts w bs st) = add_unique (fetched opts w bs) st"
proof (induction bs arbitrary: st)
  case Nil
  then show ?case by (cases st) (simp add: fetched_def)
next
  case (Cons b bs)
  show ?case
    unfolding collect_Cons_snd Cons.IH
    by (cases "snd (branch_commits opts w b)") (simp_all add: fetched_def add_unique_append)
qed

lemma add_unique_inv: "hashes_inv st \<Longrightarrow> hashes_inv (add_unique xs st)"
  by (induction xs st rule: add_unique.induct) (auto simp: hashes_inv_def)

lemma add_unique_subset:
  "set (fst (add_unique xs st)) \<subseteq> set (fst st) \<union> set xs"
  by (induction xs st rule: add_unique.induct) (auto split: if_splits)

text \<open>A commit that is kept is the first one of its hash in the input.\<close>

lemma add_unique_first:
  "hashes_inv st \<Longrightarrow> c \<in> set (fst (add_unique xs st)) \<Longrightarrow>
   map_of (map (\<lambda>c. (hash c, c)) (fst st @ xs)) (hash c) = Some c"
proof (induction xs st rule: add_unique.induct)
  case (1 acc hs)
  then show ?case
    by (auto intro!: map_of_is_SomeI simp: comp_def hashes_inv_def)
next
  case (2 x xs acc hs)
  show ?case
  proof (cases "hash x \<in> hs")
    case True
    with 2 have ih: "map_of (map (\<lambda>c. (hash c, c)) (acc @ xs)) (hash c) = Some c"
      by simp
    from True "2.prems"(1) obtain y where y: "y \<in> set acc" "hash x = hash y"
      by (auto simp: hashes_inv_def)
    then have "map_of (map (\<lambda>c. (hash c, c)) acc) (hash x) \<noteq> None"
      by (auto simp: map_of_eq_None_iff image_iff comp_def)
    with ih show ?thesis
      by (auto simp: map_add_def split: option.splits)
  next
    case False
    from "2.prems"(1) False have "hashes_inv (acc @ [x], insert (hash x) hs)"
      by (auto simp: hashes_inv_def)
    with 2 False have "map_of (map (\<lambda>c. (hash c, c)) ((acc @ [x]) @ xs)) (hash c) = Some c"
      by simp
    then show ?thesis by simp
  qed
qed

lemma map_of_project:
  "map_of (map (\<lambda>c. (f c, c)) xs) k = Some c \<Longrightarrow>
   map_of (map (\<lambda>c. (f c, g c)) xs) k = Some (g c)"
  by (induction xs) (auto split: if_splits)

lemma branch_commits_tag:
  "snd (branch_commits opts w b) = Inr cs \<Longrightarrow> c \<in> set cs \<Longrightarrow> branch c = b"
  by (auto simp: branch_commits_def parse_log_def parse_line_def Let_def
           split: if_splits sum.splits)

lemma map_of_tagged:
  "\<forall>c \<in> set cs. branch c = b \<Longrightarrow>
   map_of (map (\<lambda>c. (hash c, branch c)) cs) h = (if h \<in> set (map hash cs) then Some b else None)"
  by (induction cs) auto

lemma first_seen_map_of:
  "map_of (map (\<lambda>c. (hash c, branch c)) (fetched opts w bs)) h = first_seen opts w bs h"
proof (induction bs)
  case Nil
  then show ?case by (simp add: fetched_def)
next
  case (Cons b bs)
  show ?case
  proof (cases "snd (branch_commits opts w b)")
    case (Inl e)
    with Cons show ?thesis by (simp add: fetched_def)
  next
    case (Inr cs)
    then have "\<forall>c \<in> set cs. branch c = b" using branch_commits_tag by blast
    from map_of_tagged [OF this] Inr Cons show ?thesis
      by (auto simp: fetched_def map_add_def split: option.splits)
  qed
qed

subsection \<open>The sort\<close>

text \<open>It is a permutation, and with valid dates it is the stable sort by time.\<close>

lemma js_insert_set: "set (js_insert f x ys) = insert x (set ys)"
  by (induction ys) auto

lemma js_insert_distinct:
  "distinct (map g (js_insert f x ys)) = distinct (map g (x # ys))"
  by (induction ys) (auto simp: js_insert_set)

lemma js_sort_set: "set (js_sort f xs) = set xs"
  by (induction xs) (auto simp: js_sort_def js_insert_set)

lemma js_sort_distinct: "distinct (map g (js_sort f xs)) = distinct (map g xs)"
  by (induction xs)
     (auto simp: js_sort_def js_insert_distinct js_insert_set js_sort_set [unfolded js_sort_def])

lemma changeset_set:
  "set (changeset opts w bs) = set (fst (add_unique (fetched opts w bs) ([], {})))"
  by (simp add: changeset_def js_sort_set collect_fetched)

lemma js_insert_insort:
  "timestamp gt x \<noteq> None \<Longrightarrow> \<forall>y \<in> set ys. timestamp gt y \<noteq> None \<Longrightarrow>
   js_insert (compare_dates gt) x ys = insort_key (\<lambda>c. the (timestamp gt c)) x ys"
  by (induction ys) (auto simp: sort_compare_def compare_dates_def)

lemma js_sort_sort_key:
  "\<forall>c \<in> set xs. timestamp gt c \<noteq> None \<Longrightarrow>
   js_sort (compare_dates gt) xs = sort_key (\<lambda>c. the (timestamp gt c)) xs"
proof (induction xs)
  case Nil
  then show ?case by (simp add: js_sort_def)
next
  case (Cons x xs)
  then have "js_sort (compare_dates gt) xs = sort_key (\<lambda>c. the (timestamp gt c)) xs" by simp
  moreover have "\<forall>y \<in> set (sort_key (\<lambda>c. the (timestamp gt c)) xs). timestamp gt y \<noteq> None"
    using Cons.prems by simp
  ultimately show ?case
    using Cons.prems js_insert_insort [of gt x "sort_key (\<lambda>c. the (timestamp gt c)) xs"]
    by (simp add: js_sort_def)
qed

subsection \<open>Steps of the run\<close>

lemma unpublished_simps [simp]:
  "unpublished []"
  "unpublished (e # es) = (\<not> is_publish e \<and> unpublished es)"
  "unpublished (xs @ ys) = (unpublished xs \<and> unpublished ys)"
  by (simp_all add: unpublished_def)

lemma seq_Inl [simp]: "seq (es, Inl out) f = (es, Inl out)"
  by (simp add: seq_def)

lemma seq_Inr [simp]: "seq (es, Inr x) f = (es @ fst (f x), snd (f x))"
  by (simp add: seq_def split: prod.splits)

lemma seq_emit [simp]: "seq (emit es) f = (es @ fst (f ()), snd (f ()))"
  by (simp add: emit_def)

lemma await_simps [simp]:
  "await call (Inl e) = ([call, SpinnerFail (''Error: '' @ e)], Inl (Exit 1))"
  "await call (Inr v) = ([call], Inr v)"
  "await_unit call (Some e) = ([call, SpinnerFail (''Error: '' @ e)], Inl (Exit 1))"
  "await_unit call None = ([call], Inr ())"
  by (simp_all add: await_def await_unit_def uncaught_def)

lemma exit_with_simps [simp]: "exit_with es n = (es, Inl (Exit n))"
  by (simp add: exit_with_def)

lemma unpublished_seq:
  "unpublished (fst m) \<Longrightarrow> (\<And>x. snd m = Inr x \<Longrightarrow> unpublished (fst (f x))) \<Longrightarrow>
   unpublished (fst (seq m f))"
  by (cases m; cases "snd m") auto

text \<open>Nothing is published before the commits have been shown.\<close>

lemma unpublished_resolve: "unpublished (fst (resolve_feature opts w))"
  by (cases "git_branch w []") (simp_all add: resolve_feature_def)

lemma unpublished_guard: "unpublished (fst (guard_feature opts fb))"
  by (simp add: guard_feature_def emit_def)

lemma unpublished_status: "unpublished (fst (check_status w))"
  by (cases "git_status_isClean w") (simp_all add: check_status_def emit_def)

lemma unpublished_fetch: "unpublished (fst (fetch_latest w))"
  by (cases "git_fetch w") (simp_all add: fetch_latest_def emit_def)

lemma unpublished_branches: "unpublished (fst (check_branches opts w fb))"
  by (cases "git_branch w [''-a'']") (simp_all add: check_branches_def emit_def)

lemma unpublished_sub: "unpublished (fst (find_sub_branches opts w fb))"
  by (cases "git_branch w [''-r'']")
     (simp_all add: find_sub_branches_def uncaught_def Let_def split: sum.splits)

lemma unpublished_to_process: "unpublished (fst (branches_to_process opts w fb))"
  by (auto simp: branches_to_process_def Let_def intro!: unpublished_seq unpublished_sub)

lemma unpublished_prepare: "unpublished (fst (prepare opts w))"
  unfolding prepare_def
  by (intro unpublished_seq unpublished_resolve unpublished_guard unpublished_status
        unpublished_fetch unpublished_branches unpublished_to_process)
     simp

lemma not_publish_branch_call: "\<not> is_publish (fst (branch_commits opts w b))"
  by (simp add: branch_commits_def log_args_def)

lemma unpublished_collect: "unpublished (fst (collect opts w bs st))"
proof (induction bs arbitrary: st)
  case Nil
  then show ?case by simp
next
  case (Cons b bs)
  show ?case
    unfolding collect_Cons_fst
    by (cases "snd (branch_commits opts w b)") (simp_all add: not_publish_branch_call Cons)
qed

lemma unpublished_collecting: "unpublished (collecting opts w fb bs)"
  by (simp add: collecting_def unpublished_collect)

lemma unpublished_shown: "unpublished (shown fb cs)"
  by (simp add: shown_def unpublished_def list_all_iff)

lemma resolve_no_fetch: "GitFetch \<notin> set (fst (resolve_feature opts w))"
  by (cases "git_branch w []") (simp_all add: resolve_feature_def)

text \<open>The run after \<open>prepare\<close>, by cases.\<close>

lemma display_eq:
  "a < length h \<Longrightarrow>
   display fb h a = (shown fb (h ! a), Inr (h @ [rev (h ! a)], length h))"
  by (simp add: display_def array_spread_def array_new_def array_reverse_def shown_def
        nth_append)

lemma show_and_publish_eq:
  "show_and_publish opts w fb bs cs =
     (if cs = [] then
        ([SpinnerFail (''No commits found in '' @ fb @ '' that are not in ''
            @ stagingBranch opts)], Inl (Exit 1))
      else if dryRun opts then
        (SpinnerSucceed (found_message cs) # shown fb cs
           @ [ConsoleLog ([CHR 0x0A] @ ''Dry run completed. No changes were made.'')],
         Inl Return)
      else
        (SpinnerSucceed (found_message cs) # shown fb cs
           @ fst (publish opts w fb bs [cs, rev cs] 0),
         snd (publish opts w fb bs [cs, rev cs] 0)))"
  by (simp add: show_and_publish_def array_new_def check_found_def emit_def display_eq
        found_message_def)

lemma run_after_prepare:
  "prepare opts w = (es0, Inr (fb, bs)) \<Longrightarrow>
   createStagingPR opts w =
     finish (es0 @ collecting opts w fb bs
                @ fst (show_and_publish opts w fb bs (changeset opts w bs)),
             snd (show_and_publish opts w fb bs (changeset opts w bs)))"
  by (simp add: createStagingPR_def collect_all_def collecting_def)

lemma run_prepare_fails:
  "prepare opts w = (es0, Inl out) \<Longrightarrow> createStagingPR opts w = (es0, out)"
  by (simp add: createStagingPR_def finish_def)

text \<open>The cherry-pick calls follow the stored array.\<close>

lemma picked_append [simp]: "picked (xs @ ys) = picked xs @ picked ys"
  by (induction xs rule: picked.induct) auto

lemma picked_shown [simp]: "picked (shown fb cs) = []"
proof -
  have "picked (map (\<lambda>ic. ConsoleLog (f ic)) xs) = []" for f :: "nat \<times> commit \<Rightarrow> string" and xs
    by (induction xs) auto
  then show ?thesis by (simp add: shown_def)
qed

lemma cherry_pick_all_picked:
  "picked (fst (cherry_pick_all w cs))
     = take (length (picked (fst (cherry_pick_all w cs)))) (map hash cs)
   \<and> (snd (cherry_pick_all w cs) = Inr () \<longrightarrow> picked (fst (cherry_pick_all w cs)) = map hash cs)
   \<and> snd (cherry_pick_all w cs) \<noteq> Inl Return"
proof (induction cs)
  case Nil
  then show ?case by simp
next
  case (Cons c cs)
  show ?case
  proof (cases "git_raw w [''cherry-pick'', hash c]")
    case (Inl e)
    then show ?thesis by simp
  next
    case (Inr out)
    with Cons show ?thesis by (auto split: prod.splits)
  qed
qed

lemma picked_seq_Nil:
  "picked (fst m) = [] \<Longrightarrow> (\<And>x. picked (fst (f x)) = []) \<Longrightarrow> picked (fst (seq m f)) = []"
  by (cases m; cases "snd m") auto

lemma picked_await_Nil:
  "picked [call] = [] \<Longrightarrow> picked (fst (await call answer)) = []"
  by (cases answer; cases call) auto

lemma create_pr_picked [simp]:
  "picked (fst (create_pr opts w fb bs cs name)) = []"
  unfolding create_pr_def Let_def
  by (auto intro!: picked_seq_Nil picked_await_Nil simp: emit_def split: option.splits)

lemma publish_picked:
  "picked (fst (publish opts w fb bs h a))
     = take (length (picked (fst (publish opts w fb bs h a)))) (map hash (h ! a))
   \<and> (snd (publish opts w fb bs h a) = Inl Return \<longrightarrow>
        picked (fst (publish opts w fb bs h a)) = map hash (h ! a))"
proof (cases "git_checkout w [''-b'', staging_pr_branch fb (date_now w), ''origin/'' @ stagingBranch opts]")
  case (Some e)
  then show ?thesis by (simp add: publish_def Let_def)
next
  case None
  obtain es r where cp: "cherry_pick_all w (h ! a) = (es, r)"
    by (cases "cherry_pick_all w (h ! a)")
  from cherry_pick_all_picked [of w "h ! a"] cp
  have es: "picked es = take (length (picked es)) (map hash (h ! a))"
    and all: "r = Inr () \<Longrightarrow> picked es = map hash (h ! a)"
    and nr: "r \<noteq> Inl Return" by simp_all
  show ?thesis
  proof (cases r)
    case (Inl out)
    with None cp es nr show ?thesis by (simp add: publish_def Let_def)
  next
    case (Inr u)
    with all have "picked es = map hash (h ! a)" by simp
    with None cp Inr show ?thesis
      by (cases "git_push w ''origin'' (staging_pr_branch fb (date_now w))")
         (simp_all add: publish_def Let_def)
  qed
qed

lemma unpublished_picked: "unpublished es \<Longrightarrow> picked es = []"
  by (induction es rule: picked.induct) auto

lemma picked_run:
  assumes "prepare opts w = (es0, Inr (fb, bs))"
  shows "picked (fst (createStagingPR opts w))
           = picked (fst (show_and_publish opts w fb bs (changeset opts w bs)))"
proof -
  have "unpublished es0" using unpublished_prepare [of opts w] assms by simp
  then show ?thesis
    by (simp add: run_after_prepare [OF assms] finish_def unpublished_picked
          unpublished_collecting split: sum.splits)
qed

subsection \<open>The examples, evaluated\<close>

lemma example_world_fields:
  "git_checkout (example_world raw) args = None"
  "git_push (example_world raw) remote b = None"
  "git_raw (example_world raw) = raw"
  "env_GITHUB_TOKEN (example_world raw) = None"
  "date_now (example_world raw) = 1700000000000"
  "date_getTime (example_world raw) = example_getTime"
  by (simp_all add: example_world_def)




lemma found_message_two [simp]: "found_message [c1, c2] = ''Found 2 commits to cherry-pick''"
  by (simp add: found_message_def string_of_nat.simps digit_char_def)

lemma prepare_example:
  "prepare (example_options\<lparr>dryRun := d\<rparr>) (example_world raw)
     = (example_prefix, Inr (''featX'', [''featX'', ''featY'']))"
  by (simp add: prepare_def example_options_def example_world_def run_defs js_trim_def
        is_space_def string_of_nat.simps digit_char_def example_prefix_def)

lemma branch_commits_dryRun [simp]:
  "branch_commits (opts\<lparr>dryRun := d\<rparr>) w b = branch_commits opts w b"
  by (simp add: branch_commits_def log_args_def additional_args_def)

lemma collect_dryRun [simp]:
  "collect (opts\<lparr>dryRun := d\<rparr>) w bs st = collect opts w bs st"
  by (induction bs arbitrary: st) simp_all

lemma changeset_dryRun [simp]: "changeset (opts\<lparr>dryRun := d\<rparr>) w bs = changeset opts w bs"
  by (simp add: changeset_def)

lemma changeset_example:
  "changeset example_options (example_world raw_two) [''featX'', ''featY'']
    = [\<lparr>hash = ''1111111111aaaaaaaaaa1111111111aaaaaaaaaa'', message = ''add parser'',
         author_name = ''Alice'', date = ''2024-01-01 10:00:00 +0000'', refs = [],
         author_date = None, branch = ''featX''\<rparr>,
       \<lparr>hash = ''2222222222bbbbbbbbbb2222222222bbbbbbbbbb'', message = ''add printer'',
         author_name = ''Bob'', date = ''2024-01-05 10:00:00 +0000'', refs = '' (origin/featY)'',
         author_date = None, branch = ''featY''\<rparr>]"
  by (simp add: example_defs eval_defs changeset_def js_sort_def sort_compare_def
        compare_dates_def timestamp_def)




lemma prepare_pipe:
  "snd (prepare pipe_options (example_world raw)) = Inr (''featX'', [''featX''])"
  by (simp add: prepare_def pipe_options_def example_options_def example_world_def run_defs)

lemma changeset_pipe:
  "changeset pipe_options (example_world raw_pipe) [''featX'']
     = [\<lparr>hash = ''2222222222bbbbbbbbbb2222222222bbbbbbbbbb'', message = ''fix a'',
          author_name = ''b parser'', date = ''Bob'', refs = ''2024-01-05 10:00:00 +0000'',
          author_date = None, branch = ''featX''\<rparr>,
        \<lparr>hash = ''1111111111aaaaaaaaaa1111111111aaaaaaaaaa'', message = ''add parser'',
          author_name = ''Alice'', date = ''2024-01-01 10:00:00 +0000'', refs = [],
          author_date = None, branch = ''featX''\<rparr>]"
  by (simp add: pipe_options_def example_defs eval_defs changeset_def js_sort_def
        sort_compare_def compare_dates_def timestamp_def raw_pipe_def line_fix_def)

lemma pipe_options_fields:
  "dryRun pipe_options = False"
  "stagingBranch pipe_options = ''staging''"
  by (simp_all add: pipe_options_def example_options_def)

lemma publish_pipe_returns:
  "snd (show_and_publish pipe_options (example_world raw_pipe) ''featX'' [''featX'']
         (changeset pipe_options (example_world raw_pipe) [''featX''])) = Inl Return"
  by (simp add: changeset_pipe show_and_publish_eq publish_def Let_def pipe_options_fields
        example_world_fields raw_pipe_def create_pr_def emit_def)

section \<open>The claims\<close>

text \<open>
  C1. Whatever the options, the collaborators' answers and the list of source
  branches, no two commits of the final changeset have the same hash, and the branch
  tag of each commit is the first branch, in processing order, whose log returned a
  commit with that hash.
\<close>

theorem changeset_unique_first_seen:
  "distinct (map hash (changeset opts w bs)) \<and>
   (\<forall>c \<in> set (changeset opts w bs). first_seen opts w bs (hash c) = Some (branch c))"
proof
  show "distinct (map hash (changeset opts w bs))"
    using add_unique_inv [of "([], {})" "fetched opts w bs"]
    by (simp add: changeset_def js_sort_distinct collect_fetched hashes_inv_def)
next
  show "\<forall>c \<in> set (changeset opts w bs). first_seen opts w bs (hash c) = Some (branch c)"
  proof
    fix c assume "c \<in> set (changeset opts w bs)"
    then have "c \<in> set (fst (add_unique (fetched opts w bs) ([], {})))"
      by (simp add: changeset_set)
    then have "map_of (map (\<lambda>c. (hash c, c)) ([] @ fetched opts w bs)) (hash c) = Some c"
      using add_unique_first [of "([], {})" c "fetched opts w bs"]
      by (simp add: hashes_inv_def)
    then have "map_of (map (\<lambda>c. (hash c, branch c)) (fetched opts w bs)) (hash c)
                 = Some (branch c)"
      by (simp add: map_of_project)
    then show "first_seen opts w bs (hash c) = Some (branch c)"
      by (simp add: first_seen_map_of)
  qed
qed

text \<open>
  The example of the specification: \<open>featX\<close> holds one commit, \<open>featY\<close> holds it and a
  second one. The shared commit appears once, tagged \<open>featX\<close>.
\<close>

theorem changeset_unique_first_seen_witness:
  "distinct (map hash (changeset example_options (example_world raw_two) [''featX'', ''featY'']))
   \<and> map (\<lambda>c. (take 7 (hash c), branch c))
         (changeset example_options (example_world raw_two) [''featX'', ''featY''])
       = [(''1111111'', ''featX''), (''2222222'', ''featY'')]
   \<and> first_seen example_options (example_world raw_two) [''featX'', ''featY'']
         ''1111111111aaaaaaaaaa1111111111aaaaaaaaaa'' = Some ''featX''"
  using changeset_unique_first_seen
          [of example_options "example_world raw_two" "[''featX'', ''featY'']"]
  unfolding changeset_example by (simp del: first_seen.simps)

text \<open>
  C2. The changeset is not always in ascending order of the authored dates. On the
  default path the log line of a commit whose subject holds a \<open>|\<close> is split one
  field too early (C10), so its \<open>date\<close> is the author's name, an invalid date whose
  time is NaN; the comparator then returns NaN against every other commit, which the
  sort reads as "equal", and the commit stays where the log had it. Here \<open>featX\<close>
  holds the commit of 1 January and, on top of it, the commit of 5 January with the
  subject \<open>fix a|b parser\<close>. The changeset lists the commit of 5 January first (its
  authored date has ended up in \<open>refs\<close>), and the run cherry-picks it first. With
  two commits the comparator is consistent, so every stable sort gives this order.
\<close>

theorem changeset_unsorted_when_subject_has_pipe:
  "map (\<lambda>c. (take 7 (hash c), message c, date c, refs c))
      (changeset pipe_options (example_world raw_pipe) [''featX''])
     = [(''2222222'', ''fix a'', ''Bob'', ''2024-01-05 10:00:00 +0000''),
        (''1111111'', ''add parser'', ''2024-01-01 10:00:00 +0000'', [])]
   \<and> map (timestamp example_getTime)
         (changeset pipe_options (example_world raw_pipe) [''featX''])
       = [None, Some 1704103200000]
   \<and> example_getTime ''2024-01-05 10:00:00 +0000'' = Some 1704448800000
   \<and> picked (fst (createStagingPR pipe_options (example_world raw_pipe)))
       = [''2222222222bbbbbbbbbb2222222222bbbbbbbbbb'',
          ''1111111111aaaaaaaaaa1111111111aaaaaaaaaa'']"
proof -
  obtain es0 where prep: "prepare pipe_options (example_world raw_pipe)
                            = (es0, Inr (''featX'', [''featX'']))"
    using prepare_pipe [of raw_pipe] by (cases "prepare pipe_options (example_world raw_pipe)") simp
  have ne: "changeset pipe_options (example_world raw_pipe) [''featX''] \<noteq> []"
    by (simp add: changeset_pipe)
  have nd: "\<not> dryRun pipe_options" by (simp add: pipe_options_fields)
  have "picked (fst (createStagingPR pipe_options (example_world raw_pipe)))
          = map hash (changeset pipe_options (example_world raw_pipe) [''featX''])"
    using publish_picked [of pipe_options "example_world raw_pipe" "''featX''" "[''featX'']"
            "[changeset pipe_options (example_world raw_pipe) [''featX''],
              rev (changeset pipe_options (example_world raw_pipe) [''featX''])]" 0]
          publish_pipe_returns ne nd
    by (simp add: picked_run [OF prep] show_and_publish_eq)
  then show ?thesis
    by (simp add: changeset_pipe timestamp_def example_getTime_def)
qed





text \<open>
  C6. In a dry run, whatever the options and the collaborators answer, the trace holds
  no call that creates the branch, cherry-picks, pushes or opens the pull request.
  If the run gets as far as a non-empty changeset, it prints the list, then the
  dry-run message, and returns.
\<close>

theorem dry_run_publishes_nothing:
  assumes "dryRun opts"
  shows "unpublished (fst (createStagingPR opts w)) \<and>
         (case prepare opts w of
            (es0, Inl out) \<Rightarrow> createStagingPR opts w = (es0, out)
          | (es0, Inr (fb, bs)) \<Rightarrow>
              createStagingPR opts w =
                (if changeset opts w bs = [] then
                   (es0 @ collecting opts w fb bs
                      @ [SpinnerFail (''No commits found in '' @ fb @ '' that are not in ''
                           @ stagingBranch opts)],
                    Exit 1)
                 else
                   (es0 @ collecting opts w fb bs
                      @ SpinnerSucceed (found_message (changeset opts w bs))
                      # shown fb (changeset opts w bs)
                      @ [ConsoleLog ([CHR 0x0A] @ ''Dry run completed. No changes were made.'')],
                    Return)))"
proof (cases "prepare opts w")
  case (Pair es0 r)
  have u0: "unpublished es0" using unpublished_prepare [of opts w] Pair by simp
  show ?thesis
  proof (cases r)
    case (Inl out)
    with Pair u0 show ?thesis by (simp add: run_prepare_fails)
  next
    case (Inr p)
    obtain fb bs where p: "p = (fb, bs)" by (cases p)
    from Pair Inr p have prep: "prepare opts w = (es0, Inr (fb, bs))" by simp
    show ?thesis
      using assms u0
      by (simp add: prep run_after_prepare [OF prep] show_and_publish_eq finish_def
            unpublished_collecting unpublished_shown)
  qed
qed

text \<open>The example as a dry run.\<close>

theorem dry_run_publishes_nothing_witness:
  "dryRun (example_options\<lparr>dryRun := True\<rparr>)
   \<and> unpublished (fst (createStagingPR (example_options\<lparr>dryRun := True\<rparr>) (example_world raw_two)))
   \<and> snd (createStagingPR (example_options\<lparr>dryRun := True\<rparr>) (example_world raw_two)) = Return
   \<and> last (fst (createStagingPR (example_options\<lparr>dryRun := True\<rparr>) (example_world raw_two)))
       = ConsoleLog ([CHR 0x0A] @ ''Dry run completed. No changes were made.'')"
  using dry_run_publishes_nothing
          [of "example_options\<lparr>dryRun := True\<rparr>" "example_world raw_two"]
  by (simp add: prepare_example changeset_example unpublished_collecting unpublished_shown
        example_prefix_def)

text \<open>
  C7. If the feature branch the run has settled on is the staging branch or the
  develop branch, the run prints the error, exits with 1, and its trace is what
  settling the feature branch printed or called and the error: no fetch, and no call
  that creates a branch.
\<close>

theorem feature_guard_before_fetch:
  assumes "snd (resolve_feature opts w) = Inr fb"
      and "fb = stagingBranch opts \<or> fb = developBranch opts"
  shows "createStagingPR opts w =
           (fst (resolve_feature opts w)
              @ [ConsoleError ''Feature branch cannot be the same as staging or develop branch''],
            Exit 1)
         \<and> GitFetch \<notin> set (fst (createStagingPR opts w))
         \<and> unpublished (fst (createStagingPR opts w))"
proof -
  obtain es where r: "resolve_feature opts w = (es, Inr fb)"
    using assms(1) by (cases "resolve_feature opts w") simp
  have "prepare opts w =
          (es @ [ConsoleError ''Feature branch cannot be the same as staging or develop branch''],
           Inl (Exit 1))"
    using assms(2) by (auto simp: prepare_def r guard_feature_def)
  from run_prepare_fails [OF this] r resolve_no_fetch [of opts w] unpublished_resolve [of opts w]
  show ?thesis by simp
qed

text \<open>
  \<open>-f staging\<close>, and an explicit list whose first entry is the develop branch.
\<close>

theorem feature_guard_before_fetch_witness:
  "createStagingPR (example_options\<lparr>featureBranch := Some ''staging'', branches := None\<rparr>)
       (example_world raw_two)
     = ([ConsoleError ''Feature branch cannot be the same as staging or develop branch''], Exit 1)
   \<and> createStagingPR (example_options\<lparr>branches := Some ''develop, featX''\<rparr>)
       (example_world raw_two)
     = ([ConsoleLog ''Using manually specified branches: develop, featX'',
         ConsoleError ''Feature branch cannot be the same as staging or develop branch''],
        Exit 1)"
  using feature_guard_before_fetch
          [of "example_options\<lparr>featureBranch := Some ''staging'', branches := None\<rparr>"
              "example_world raw_two" "''staging''"]
        feature_guard_before_fetch
          [of "example_options\<lparr>branches := Some ''develop, featX''\<rparr>"
              "example_world raw_two" "''develop''"]
  by (simp add: resolve_feature_def example_options_def manual_branches_def emit_def
        js_trim_def is_space_def)

text \<open>
  C8. The name of the created branch is \<open>staging-pr-\<close>, the feature branch with its
  first \<open>/\<close> replaced by \<open>-\<close>, a \<open>-\<close> and the clock's milliseconds. A second \<open>/\<close> of
  the feature branch stays in the name: for \<open>feat/a/b\<close> the name keeps \<open>a/b\<close>.
\<close>

theorem branch_name_first_slash_only:
  "staging_pr_branch ''feat/a/b'' 1700000000000 = ''staging-pr-feat-a/b-1700000000000''"
  by (simp add: staging_pr_branch_def starts_with_def string_of_nat.simps digit_char_def)




text \<open>
  C10. Take a log line whose subject is \<open>m1|m2\<close>, where the hash, \<open>m1\<close>, \<open>m2\<close>, the
  author and the date hold no \<open>|\<close>. The commit parsed from it has the message \<open>m1\<close>,
  the author \<open>m2\<close>, the date field holds the author's name and \<open>refs\<close> holds the date;
  the time used for sorting is that of the author's name (0 if it is empty). Whatever
  follows the first \<open>|\<close> of the subject, the message is cut there. This is the path
  taken unless merges are included and first-parent is off.
\<close>

theorem pipe_in_subject_shifts_fields:
  assumes "CHR ''|'' \<notin> set h" and "CHR ''|'' \<notin> set m1" and "CHR ''|'' \<notin> set m2"
      and "CHR ''|'' \<notin> set an" and "CHR ''|'' \<notin> set ad"
  shows "parse_line b (h @ ''|'' @ (m1 @ ''|'' @ m2) @ ''|'' @ an @ ''|'' @ ad @ ''|'' @ d)
           = \<lparr>hash = h, message = m1, author_name = m2, date = an, refs = ad,
              author_date = None, branch = b\<rparr>
         \<and> timestamp getTime
             (parse_line b (h @ ''|'' @ (m1 @ ''|'' @ m2) @ ''|'' @ an @ ''|'' @ ad @ ''|'' @ d))
           = (if an = [] then Some 0 else getTime an)
         \<and> (\<forall>rest. message (parse_line b (h @ ''|'' @ m1 @ ''|'' @ rest)) = m1)
         \<and> (\<not> includeMerges opts \<or> firstParent opts \<longrightarrow>
              snd (branch_commits opts w b)
                = (case git_raw w (log_args opts b) of
                     Inl e \<Rightarrow> Inl e
                   | Inr rawOutput \<Rightarrow>
                       Inr (map (parse_line b)
                              (filter (\<lambda>line. js_trim line \<noteq> [])
                                 (js_split (CHR 0x0A) (js_trim rawOutput))))))"
proof -
  have parts: "js_split (CHR ''|'')
                 (h @ ''|'' @ (m1 @ ''|'' @ m2) @ ''|'' @ an @ ''|'' @ ad @ ''|'' @ d)
               = h # m1 # m2 # an # ad # js_split (CHR ''|'') d"
    using assms by (simp add: js_split_append)
  have p: "parse_line b (h @ ''|'' @ (m1 @ ''|'' @ m2) @ ''|'' @ an @ ''|'' @ ad @ ''|'' @ d)
           = \<lparr>hash = h, message = m1, author_name = m2, date = an, refs = ad,
              author_date = None, branch = b\<rparr>"
    unfolding parse_line_def parts by simp
  have t: "timestamp getTime
             (parse_line b (h @ ''|'' @ (m1 @ ''|'' @ m2) @ ''|'' @ an @ ''|'' @ ad @ ''|'' @ d))
           = (if an = [] then Some 0 else getTime an)"
    unfolding p by (simp add: timestamp_def)
  have m: "message (parse_line b (h @ ''|'' @ m1 @ ''|'' @ rest)) = m1" for rest
  proof -
    obtain q qs where q: "js_split (CHR ''|'') rest = q # qs"
      using js_split_not_Nil [of "CHR ''|''" rest] by (cases "js_split (CHR ''|'') rest") auto
    have "js_split (CHR ''|'') (h @ ''|'' @ m1 @ ''|'' @ rest) = h # m1 # js_split (CHR ''|'') rest"
      using assms by (simp add: js_split_append)
    then show ?thesis by (simp add: parse_line_def q)
  qed
  have path: "\<not> includeMerges opts \<or> firstParent opts \<longrightarrow>
              snd (branch_commits opts w b)
                = (case git_raw w (log_args opts b) of
                     Inl e \<Rightarrow> Inl e
                   | Inr rawOutput \<Rightarrow>
                       Inr (map (parse_line b)
                              (filter (\<lambda>line. js_trim line \<noteq> [])
                                 (js_split (CHR 0x0A) (js_trim rawOutput)))))"
    unfolding branch_commits_def parse_log_def by (auto simp: additional_args_def)
  from p t m path show ?thesis by blast
qed

text \<open>The commit \<open>fix a|b parser\<close> of the example: its date field is \<open>Bob\<close>.\<close>

theorem pipe_in_subject_shifts_fields_witness:
  "parse_line ''featX'' line_fix
     = \<lparr>hash = ''2222222222bbbbbbbbbb2222222222bbbbbbbbbb'', message = ''fix a'',
        author_name = ''b parser'', date = ''Bob'', refs = ''2024-01-05 10:00:00 +0000'',
        author_date = None, branch = ''featX''\<rparr>
   \<and> timestamp example_getTime (parse_line ''featX'' line_fix) = None
   \<and> snd (branch_commits example_options (example_world raw_pipe) ''featX'')
       = Inr [parse_line ''featX'' line_fix, parse_line ''featX'' line_H1]"
proof -
  have "CHR ''|'' \<notin> set ''2222222222bbbbbbbbbb2222222222bbbbbbbbbb''"
    and "CHR ''|'' \<notin> set ''fix a''" and "CHR ''|'' \<notin> set ''b parser''"
    and "CHR ''|'' \<notin> set ''Bob''" and "CHR ''|'' \<notin> set ''2024-01-05 10:00:00 +0000''"
    by simp_all
  note T = pipe_in_subject_shifts_fields
    [OF this, of "''featX''" "[]" example_getTime example_options "example_world raw_pipe"]
  have 1: "parse_line ''featX'' line_fix
     = \<lparr>hash = ''2222222222bbbbbbbbbb2222222222bbbbbbbbbb'', message = ''fix a'',
        author_name = ''b parser'', date = ''Bob'', refs = ''2024-01-05 10:00:00 +0000'',
        author_date = None, branch = ''featX''\<rparr>"
    using T [THEN conjunct1] by (simp add: line_fix_def)
  have 2: "timestamp example_getTime (parse_line ''featX'' line_fix) = None"
    using T [THEN conjunct2, THEN conjunct1] by (simp add: line_fix_def example_getTime_def)
  have 3: "snd (branch_commits example_options (example_world raw_pipe) ''featX'')
       = Inr [parse_line ''featX'' line_fix, parse_line ''featX'' line_H1]"
    using T [THEN conjunct2, THEN conjunct2, THEN conjunct2]
    by (simp add: line_fix_def example_options_def example_world_def
        raw_pipe_def log_args_def additional_args_def line_H1_def js_trim_def is_space_def)
  from 1 2 3 show ?thesis by simp
qed

section \<open>Further properties\<close>

text \<open>
  When the date of every collected commit parses, the changeset is the stable sort
  of the collected commits by time: ascending, and commits of equal time keep the
  order in which they were collected.
\<close>

theorem changeset_sorted_when_dates_valid:
  assumes "\<forall>c \<in> set (fetched opts w bs). timestamp (date_getTime w) c \<noteq> None"
  shows "changeset opts w bs
           = sort_key (\<lambda>c. the (timestamp (date_getTime w) c))
               (fst (snd (collect opts w bs ([], {}))))
         \<and> sorted (map (\<lambda>c. the (timestamp (date_getTime w) c)) (changeset opts w bs))
         \<and> (\<forall>k. filter (\<lambda>c. the (timestamp (date_getTime w) c) = k) (changeset opts w bs)
                = filter (\<lambda>c. the (timestamp (date_getTime w) c) = k)
                    (fst (snd (collect opts w bs ([], {})))))"
proof -
  have "set (fst (snd (collect opts w bs ([], {})))) \<subseteq> set (fetched opts w bs)"
    using add_unique_subset [of "fetched opts w bs" "([], {})"] by (simp add: collect_fetched)
  with assms have "\<forall>c \<in> set (fst (snd (collect opts w bs ([], {})))).
                     timestamp (date_getTime w) c \<noteq> None"
    by blast
  then have "changeset opts w bs
           = sort_key (\<lambda>c. the (timestamp (date_getTime w) c))
               (fst (snd (collect opts w bs ([], {}))))"
    unfolding changeset_def by (rule js_sort_sort_key)
  then show ?thesis by (simp add: sort_key_stable)
qed

text \<open>The log of \<open>featY\<close> lists the newest commit first; the changeset the oldest.\<close>

theorem changeset_sorted_when_dates_valid_witness:
  "map (\<lambda>c. (take 7 (hash c), the (timestamp example_getTime c)))
     (fst (snd (collect example_options (example_world raw_two) [''featY''] ([], {}))))
     = [(''2222222'', 1704448800000), (''1111111'', 1704103200000)]
   \<and> map (\<lambda>c. (take 7 (hash c), the (timestamp example_getTime c)))
       (changeset example_options (example_world raw_two) [''featY''])
     = [(''1111111'', 1704103200000), (''2222222'', 1704448800000)]
   \<and> sorted (map (\<lambda>c. the (timestamp (date_getTime (example_world raw_two)) c))
               (changeset example_options (example_world raw_two) [''featY'']))"
proof -
  have f: "fetched example_options (example_world raw_two) [''featY'']
             = [parse_line ''featY'' line_H2, parse_line ''featY'' line_H1]"
    by (simp add: fetched_def example_defs eval_defs)
  have v: "\<forall>c \<in> set (fetched example_options (example_world raw_two) [''featY'']).
             timestamp (date_getTime (example_world raw_two)) c \<noteq> None"
    unfolding f by (simp add: example_defs eval_defs timestamp_def)
  note T = changeset_sorted_when_dates_valid [OF v]
  have c: "fst (snd (collect example_options (example_world raw_two) [''featY''] ([], {})))
             = [parse_line ''featY'' line_H2, parse_line ''featY'' line_H1]"
    by (simp add: example_defs eval_defs)
  have 1: "map (\<lambda>c. (take 7 (hash c), the (timestamp example_getTime c)))
     (fst (snd (collect example_options (example_world raw_two) [''featY''] ([], {}))))
     = [(''2222222'', 1704448800000), (''1111111'', 1704103200000)]"
    unfolding c by (simp add: example_defs eval_defs timestamp_def)
  have 2: "map (\<lambda>c. (take 7 (hash c), the (timestamp example_getTime c)))
       (changeset example_options (example_world raw_two) [''featY''])
     = [(''1111111'', 1704103200000), (''2222222'', 1704448800000)]"
    unfolding T [THEN conjunct1] c
    by (simp add: example_defs eval_defs timestamp_def)
  from 1 2 T [THEN conjunct2, THEN conjunct1] show ?thesis by blast
qed

text \<open>
  The loop asks for one log per branch, in the order of the branches: on the default
  path a \<open>git log\<close> of the two-dot range from the staging branch to that branch, and
  with merges included and first-parent off a call of the library's \<open>log\<close> with
  \<open>from\<close> the staging branch and \<open>to\<close> that branch. What commits a query returns is
  the collaborator's answer.
\<close>

theorem one_query_per_branch:
  "filter is_query (fst (collect opts w bs st))
     = map (\<lambda>b. if includeMerges opts \<and> \<not> firstParent opts then
                   GitLog (''origin/'' @ stagingBranch opts) (''origin/'' @ b)
                 else
                   GitRaw ([''log'', ''origin/'' @ stagingBranch opts @ ''..origin/'' @ b,
                            ''--oneline'', ''--format=%H|%s|%an|%ad|%d'', ''--date=iso'']
                           @ additional_args opts)) bs"
proof (induction bs arbitrary: st)
  case Nil
  then show ?case by simp
next
  case (Cons b bs)
  have call: "fst (branch_commits opts w b)
     = (if includeMerges opts \<and> \<not> firstParent opts then
                   GitLog (''origin/'' @ stagingBranch opts) (''origin/'' @ b)
                 else
                   GitRaw ([''log'', ''origin/'' @ stagingBranch opts @ ''..origin/'' @ b,
                            ''--oneline'', ''--format=%H|%s|%an|%ad|%d'', ''--date=iso'']
                           @ additional_args opts))"
    by (auto simp: branch_commits_def log_args_def additional_args_def)
  show ?case
    unfolding collect_Cons_fst
    by (cases "snd (branch_commits opts w b)") (simp_all add: call Cons)
qed

end
